theory Spec2Isabelle
  imports Main "HOL-Library.Log_Nat" "HOL-Library.Signed_Division"
begin

section \<open>virt-controller metrics: phase-transition latency and metric registration\<close>

text \<open>
  A shallow embedding of \<^verbatim>\<open>pkg/monitoring/metrics/virt-controller/metrics.go\<close>.
  The file calls into Go's \<^verbatim>\<open>time\<close> package and computes in \<^verbatim>\<open>float64\<close>; both are
  embedded first, then the functions of the file itself.
\<close>

subsection \<open>float64\<close>

text \<open>
  A finite \<^verbatim>\<open>float64\<close> is modelled by the rational number it denotes. Every arithmetic
  operation computes the exact rational result and rounds it to the nearest number with a
  53-bit significand, ties to even (the IEEE 754 default, which Go uses). The exponent is
  not allowed below \<open>-1022\<close>, so that small results lose precision as subnormal numbers do.
  Infinities, NaN and the sign of zero are not represented: the code below divides by the
  constant \<open>1e9\<close> only, and all its operands are below \<open>2^63\<close> in magnitude.
\<close>

type_synonym float64 = rat

definition pow2 :: "int \<Rightarrow> rat" where
  "pow2 k = (if 0 \<le> k then 2 ^ nat k else 1 / 2 ^ nat (- k))"

text \<open>\<open>ilog2 x\<close> is the binary exponent of a positive \<open>x\<close>: \<open>2^e \<le> x < 2^(e+1)\<close>.\<close>

definition ilog2 :: "rat \<Rightarrow> int" where
  "ilog2 x = (let (p, q) = quotient_of x; k = bitlen p - bitlen q
              in if pow2 k \<le> x then k else k - 1)"

definition round_even :: "rat \<Rightarrow> int" where
  "round_even q = (let f = \<lfloor>q\<rfloor>; r = q - of_int f
                   in if r < 1 / 2 then f else if 1 / 2 < r then f + 1
                      else if even f then f else f + 1)"

definition f64_round :: "rat \<Rightarrow> float64" where
  "f64_round x = (if x = 0 then 0
     else let u = pow2 (max (ilog2 \<bar>x\<bar>) (- 1022) - 52)
          in sgn x * of_int (round_even (\<bar>x\<bar> / u)) * u)"

definition f64_of_int :: "int \<Rightarrow> float64" where
  "f64_of_int i = f64_round (of_int i)"

definition f64_add :: "float64 \<Rightarrow> float64 \<Rightarrow> float64" where
  "f64_add x y = f64_round (x + y)"

definition f64_mul :: "float64 \<Rightarrow> float64 \<Rightarrow> float64" where
  "f64_mul x y = f64_round (x * y)"

definition f64_div :: "float64 \<Rightarrow> float64 \<Rightarrow> float64" where
  "f64_div x y = f64_round (x / y)"

text \<open>A decimal literal of the source is the \<^verbatim>\<open>float64\<close> nearest to it.\<close>

definition f64_lit :: "rat \<Rightarrow> float64" where
  "f64_lit x = f64_round x"

subsection \<open>Go's time package\<close>

text \<open>
  A \<^verbatim>\<open>time.Duration\<close> is a count of nanoseconds in an \<^verbatim>\<open>int64\<close>.
  \<^verbatim>\<open>
  func (d Duration) Seconds() float64 {
      sec := d / Second
      nsec := d % Second
      return float64(sec) + float64(nsec)/1e9
  }
  \<close>
  Go's integer division truncates towards zero and the remainder has the sign of the
  dividend: \<open>sdiv\<close> and \<open>smod\<close>.
\<close>

type_synonym Duration = int

definition Nanosecond :: Duration where "Nanosecond = 1"
definition Second :: Duration where "Second = 1000000000 * Nanosecond"
definition Minute :: Duration where "Minute = 60 * Second"
definition Hour :: Duration where "Hour = 60 * Minute"

definition minDuration :: Duration where "minDuration = - (2 ^ 63)"
definition maxDuration :: Duration where "maxDuration = 2 ^ 63 - 1"

definition Seconds :: "Duration \<Rightarrow> float64" where
  "Seconds d = (let sec = d sdiv Second; nsec = d smod Second
                in f64_add (f64_of_int sec) (f64_div (f64_of_int nsec) (f64_lit 1000000000)))"

text \<open>
  A \<^verbatim>\<open>time.Time\<close> is an instant of the wall clock, \<open>sec\<close> seconds since January 1 of
  year 1 and \<open>nsec\<close> nanoseconds within the second (what \<^verbatim>\<open>t.sec()\<close> and \<^verbatim>\<open>t.nsec()\<close>
  return), and optionally a reading \<open>monotonic\<close> of the process's monotonic clock in
  nanoseconds; the location plays no part in what follows.

  The package documents \<^verbatim>\<open>t.Sub(u)\<close> so: ``Sub returns the duration t-u. If the result
  exceeds the maximum (or minimum) value that can be stored in a Duration, the maximum (or
  minimum) duration will be returned.'' When both times carry a monotonic reading the
  difference is that of the readings alone, otherwise that of the wall-clock instants,
  \<^verbatim>\<open>(t.sec()-u.sec())*Second + (t.nsec()-u.nsec())\<close>. \<open>elapsed t u\<close> is this difference
  as an unbounded integer: \<open>t\<close> is before \<open>u\<close> when it is negative.
\<close>

record time_Time =
  sec :: int
  nsec :: int
  monotonic :: "int option"

definition elapsed :: "time_Time \<Rightarrow> time_Time \<Rightarrow> int" where
  "elapsed t u = (case (monotonic t, monotonic u) of
       (Some tm, Some um) \<Rightarrow> tm - um
     | _ \<Rightarrow> (sec t - sec u) * Second + (nsec t - nsec u))"

definition Sub :: "time_Time \<Rightarrow> time_Time \<Rightarrow> Duration" where
  "Sub t u = (let d = elapsed t u
              in if d < minDuration then minDuration
                 else if maxDuration < d then maxDuration
                 else d)"

subsection \<open>getTransitionTimeSeconds\<close>

text \<open>
  \<^verbatim>\<open>metav1.Time\<close> is a struct around a \<^verbatim>\<open>time.Time\<close>; the function takes two pointers to
  it, which may be nil. It returns a pair of a \<^verbatim>\<open>float64\<close> and an error; the error built
  by \<^verbatim>\<open>fmt.Errorf\<close> is kept as the format string and its operands.
\<close>

record metav1_Time =
  Time :: time_Time

datatype error = Errorf string "metav1_Time option list"

definition getTransitionTimeSeconds ::
  "metav1_Time option \<Rightarrow> metav1_Time option \<Rightarrow> float64 \<times> error option" where
  "getTransitionTimeSeconds oldTime newTime =
     (case (newTime, oldTime) of
        (Some new, Some old) \<Rightarrow>
          (let diffSeconds = Seconds (Sub (Time new) (Time old));
               diffSeconds = (if diffSeconds < 0 then 0 else diffSeconds)
           in (diffSeconds, None))
      | _ \<Rightarrow>
          (0, Some (Errorf ''missing phase transition timestamp, newTime: %v, oldTime: %v''
                      [newTime, oldTime])))"

subsection \<open>PhaseTransitionTimeBuckets\<close>

text \<open>
  The function returns a slice built by a composite literal: every call allocates a new
  backing array and returns a slice over all of it. The heap maps the address of an array
  to its elements; a slice is identified by the address of its array.
\<close>

record heap =
  arrays :: "nat \<Rightarrow> float64 list option"
  fresh :: nat

definition alloc :: "float64 list \<Rightarrow> heap \<Rightarrow> nat \<times> heap" where
  "alloc xs h = (fresh h, h\<lparr>arrays := (arrays h)(fresh h \<mapsto> xs), fresh := Suc (fresh h)\<rparr>)"

definition PhaseTransitionTimeBuckets :: "heap \<Rightarrow> nat \<times> heap" where
  "PhaseTransitionTimeBuckets h = alloc
     [f64_mul (f64_lit (1 / 2)) (Seconds Second),
      f64_mul (f64_lit 1) (Seconds Second),
      f64_mul (f64_lit 2) (Seconds Second),
      f64_mul (f64_lit 5) (Seconds Second),
      f64_mul (f64_lit 10) (Seconds Second),
      f64_mul (f64_lit 20) (Seconds Second),
      f64_mul (f64_lit 30) (Seconds Second),
      f64_mul (f64_lit 40) (Seconds Second),
      f64_mul (f64_lit 50) (Seconds Second),
      f64_mul (f64_lit 60) (Seconds Second),
      f64_mul (f64_lit 90) (Seconds Second),
      f64_mul (f64_lit 2) (Seconds Minute),
      f64_mul (f64_lit 3) (Seconds Minute),
      f64_mul (f64_lit 5) (Seconds Minute),
      f64_mul (f64_lit 10) (Seconds Minute),
      f64_mul (f64_lit 20) (Seconds Minute),
      f64_mul (f64_lit 30) (Seconds Minute),
      f64_mul (f64_lit 1) (Seconds Hour)] h"

subsection \<open>Package-level state and SetupMetrics\<close>

text \<open>
  Informers, stores, the cluster configuration and the client are values of types this
  file does not look into: type variables \<open>'i\<close>, \<open>'s\<close>, \<open>'c\<close> and \<open>'k\<close>
  (a nil interface or pointer is one of their values). The constructors of the two spec
  finders and of the applier belong to other packages and are kept as uninterpreted
  constructors of their arguments.
\<close>

record 'i Informers =
  Vm :: 'i
  Vmi :: 'i
  PersistentVolumeClaim :: 'i
  VmiMigration :: 'i
  KvPod :: 'i

record 's Stores =
  Instancetype :: 's
  ClusterInstancetype :: 's
  Preference :: 's
  ClusterPreference :: 's
  ControllerRevision :: 's

datatype ('s, 'k) instancetypeFinder = find_NewSpecFinder 's 's 's 'k

datatype ('s, 'k) preferenceFinder = preferenceFind_NewSpecFinder 's 's 's 'k

datatype ('s, 'k) vmApplyHandler =
  apply_NewVMApplier "('s, 'k) instancetypeFinder" "('s, 'k) preferenceFinder"

datatype metricGroup =
  componentMetrics | migrationMetrics | perfscaleMetrics | vmiMetrics | vmSnapshotMetrics

datatype collector = migrationStatsCollector | vmiStatsCollector | vmStatsCollector

definition metrics :: "metricGroup list" where
  "metrics = [componentMetrics, migrationMetrics, perfscaleMetrics, vmiMetrics,
              vmSnapshotMetrics]"

text \<open>
  The registrations are calls into other packages. The state keeps the list of the calls
  made so far next to the package-level variables (\<open>vmApplier\<close> is a nil interface,
  \<open>None\<close>, until it is assigned).
\<close>

datatype call =
  client_SetupMetrics
| workqueue_SetupMetrics
| operatormetrics_RegisterMetrics "metricGroup list"
| operatormetrics_RegisterCollector "collector list"

record ('i, 's, 'c, 'k) state =
  vmInformer :: 'i
  vmiInformer :: 'i
  persistentVolumeClaimInformer :: 'i
  vmiMigrationInformer :: 'i
  kvPodInformer :: 'i
  clusterConfig :: 'c
  vmApplier :: "('s, 'k) vmApplyHandler option"
  instancetypeStore :: 's
  clusterInstancetypeStore :: 's
  preferenceStore :: 's
  clusterPreferenceStore :: 's
  controllerRevision :: 's
  calls :: "call list"

text \<open>
  What a call into another package returns is not determined by this file: it is given
  by a function \<open>ext\<close> of the state in which the call is made (the package-level
  variables and the calls made before) and of the call, \<open>None\<close> for a nil error.
\<close>

definition invoke ::
  "(('i, 's, 'c, 'k) state \<Rightarrow> call \<Rightarrow> 'e option) \<Rightarrow> call \<Rightarrow> ('i, 's, 'c, 'k) state
     \<Rightarrow> 'e option \<times> ('i, 's, 'c, 'k) state" where
  "invoke ext c s = (ext s c, s\<lparr>calls := calls s @ [c]\<rparr>)"

text \<open>Lines 91 to 96 of the source: the informers and the cluster configuration.\<close>

definition store_informers ::
  "'i Informers \<Rightarrow> 'c \<Rightarrow> ('i, 's, 'c, 'k) state \<Rightarrow> ('i, 's, 'c, 'k) state" where
  "store_informers informers virtClusterConfig s =
     (let s = s\<lparr>vmInformer := Vm informers\<rparr>;
          s = s\<lparr>vmiInformer := Vmi informers\<rparr>;
          s = s\<lparr>persistentVolumeClaimInformer := PersistentVolumeClaim informers\<rparr>;
          s = s\<lparr>vmiMigrationInformer := VmiMigration informers\<rparr>;
          s = s\<lparr>kvPodInformer := KvPod informers\<rparr>
      in s\<lparr>clusterConfig := virtClusterConfig\<rparr>)"

text \<open>Lines 98 to 117: the stores, and the applier built from the stored references.\<close>

definition store_stores ::
  "'s Stores \<Rightarrow> 'k \<Rightarrow> ('i, 's, 'c, 'k) state \<Rightarrow> ('i, 's, 'c, 'k) state" where
  "store_stores stores clientset s =
     (let s = s\<lparr>instancetypeStore := Instancetype stores\<rparr>;
          s = s\<lparr>clusterInstancetypeStore := ClusterInstancetype stores\<rparr>;
          s = s\<lparr>preferenceStore := Preference stores\<rparr>;
          s = s\<lparr>clusterPreferenceStore := ClusterPreference stores\<rparr>;
          s = s\<lparr>controllerRevision := ControllerRevision stores\<rparr>
      in s\<lparr>vmApplier := Some (apply_NewVMApplier
            (find_NewSpecFinder (instancetypeStore s) (clusterInstancetypeStore s)
               (controllerRevision s) clientset)
            (preferenceFind_NewSpecFinder (preferenceStore s) (clusterPreferenceStore s)
               (controllerRevision s) clientset))\<rparr>)"

text \<open>Lines 119 to 135: the four registrations, each returning at its error.\<close>

datatype 'e outcome = Panic | Return "'e option"

definition register ::
  "(('i, 's, 'c, 'k) state \<Rightarrow> call \<Rightarrow> 'e option) \<Rightarrow> ('i, 's, 'c, 'k) state
     \<Rightarrow> 'e outcome \<times> ('i, 's, 'c, 'k) state" where
  "register ext s =
     (case invoke ext client_SetupMetrics s of
        (Some err, s) \<Rightarrow> (Return (Some err), s)
      | (None, s) \<Rightarrow>
     (case invoke ext workqueue_SetupMetrics s of
        (Some err, s) \<Rightarrow> (Return (Some err), s)
      | (None, s) \<Rightarrow>
     (case invoke ext (operatormetrics_RegisterMetrics metrics) s of
        (Some err, s) \<Rightarrow> (Return (Some err), s)
      | (None, s) \<Rightarrow>
     (case invoke ext (operatormetrics_RegisterCollector
             [migrationStatsCollector, vmiStatsCollector, vmStatsCollector]) s of
        (r, s) \<Rightarrow> (Return r, s)))))"

text \<open>
  \<^verbatim>\<open>informers\<close> and \<^verbatim>\<open>stores\<close> are pointers: reading a field through a nil pointer
  panics, for \<^verbatim>\<open>stores\<close> after the informers have been stored.
\<close>

definition SetupMetrics ::
  "(('i, 's, 'c, 'k) state \<Rightarrow> call \<Rightarrow> 'e option) \<Rightarrow> 'i Informers option \<Rightarrow> 's Stores option
     \<Rightarrow> 'c \<Rightarrow> 'k \<Rightarrow> ('i, 's, 'c, 'k) state \<Rightarrow> 'e outcome \<times> ('i, 's, 'c, 'k) state" where
  "SetupMetrics ext informers stores virtClusterConfig clientset s =
     (case informers of
        None \<Rightarrow> (Panic, s)
      | Some infs \<Rightarrow>
          (let s = store_informers infs virtClusterConfig s
           in case stores of
                None \<Rightarrow> (Panic, s)
              | Some sts \<Rightarrow> register ext (store_stores sts clientset s)))"

definition UpdateVMIMigrationInformer ::
  "'i \<Rightarrow> ('i, 's, 'c, 'k) state \<Rightarrow> ('i, 's, 'c, 'k) state" where
  "UpdateVMIMigrationInformer informer s = s\<lparr>vmiMigrationInformer := informer\<rparr>"

subsection \<open>Names and inputs used in the statements below\<close>

text \<open>The four registrations of \<open>SetupMetrics\<close>, in the order of the source.\<close>

definition setup_calls :: "call list" where
  "setup_calls = [client_SetupMetrics, workqueue_SetupMetrics,
     operatormetrics_RegisterMetrics metrics,
     operatormetrics_RegisterCollector
       [migrationStatsCollector, vmiStatsCollector, vmStatsCollector]]"

text \<open>
  The zero \<^verbatim>\<open>metav1.Time\<close> (January 1 of year 1), midnight of January 1, 2026, and the
  instants 2.5 seconds after and one millisecond before it.
\<close>

definition zeroTime :: metav1_Time where
  "zeroTime = \<lparr>Time = \<lparr>sec = 0, nsec = 0, monotonic = None\<rparr>\<rparr>"

definition year2026 :: metav1_Time where
  "year2026 = \<lparr>Time = \<lparr>sec = 63902822400, nsec = 0, monotonic = None\<rparr>\<rparr>"

definition after2500ms :: metav1_Time where
  "after2500ms = \<lparr>Time = \<lparr>sec = 63902822402, nsec = 500000000, monotonic = None\<rparr>\<rparr>"

definition before1ms :: metav1_Time where
  "before1ms = \<lparr>Time = \<lparr>sec = 63902822399, nsec = 999000000, monotonic = None\<rparr>\<rparr>"

text \<open>
  A start state with every reference nil (0), informers and stores numbered 1 to 10, and
  two behaviours of the other packages: every call succeeds, or
  \<^verbatim>\<open>workqueue.SetupMetrics\<close> fails.
\<close>

definition state0 :: "(nat, nat, nat, nat) state" where
  "state0 = \<lparr>vmInformer = 0, vmiInformer = 0, persistentVolumeClaimInformer = 0,
     vmiMigrationInformer = 0, kvPodInformer = 0, clusterConfig = 0, vmApplier = None,
     instancetypeStore = 0, clusterInstancetypeStore = 0, preferenceStore = 0,
     clusterPreferenceStore = 0, controllerRevision = 0, calls = []\<rparr>"

definition informers0 :: "nat Informers" where
  "informers0 = \<lparr>Vm = 1, Vmi = 2, PersistentVolumeClaim = 3, VmiMigration = 4, KvPod = 5\<rparr>"

definition stores0 :: "nat Stores" where
  "stores0 = \<lparr>Instancetype = 6, ClusterInstancetype = 7, Preference = 8,
     ClusterPreference = 9, ControllerRevision = 10\<rparr>"

definition accept_all :: "(nat, nat, nat, nat) state \<Rightarrow> call \<Rightarrow> string option" where
  "accept_all s c = None"

definition reject_workqueue :: "(nat, nat, nat, nat) state \<Rightarrow> call \<Rightarrow> string option" where
  "reject_workqueue s c = (if c = workqueue_SetupMetrics then Some ''rejected'' else None)"

section \<open>Properties of the float64 and time models\<close>

lemma pow2_powi: "pow2 k = 2 powi k"
proof (cases "0 \<le> k")
  case True
  then show ?thesis by (simp add: pow2_def power_int_def)
next
  case False
  then show ?thesis by (simp add: pow2_def power_int_def power_one_over inverse_eq_divide)
qed

lemma pow2_pos: "0 < pow2 k"
  by (simp add: pow2_def)

lemma pow2_diff: "pow2 (a - b) = pow2 a / pow2 b"
  unfolding pow2_powi by (simp add: power_int_diff)

lemma pow2_mono: "a \<le> b \<Longrightarrow> pow2 a \<le> pow2 b"
  unfolding pow2_powi by (simp add: power_int_increasing)

lemma pow2_less_cancel: "pow2 a < pow2 b \<Longrightarrow> a < b"
  using pow2_mono [of b a] by (cases "a < b") auto

lemma ilog2_bounds:
  assumes "0 < x"
  shows "pow2 (ilog2 x) \<le> x" and "x < pow2 (ilog2 x + 1)"
proof -
  obtain p q where pq: "quotient_of x = (p, q)" by force
  have q: "0 < q" using pq quotient_of_denom_pos by blast
  have x: "x = of_int p / of_int q" using pq quotient_of_div by blast
  have p: "0 < p" using assms q x by (simp add: zero_less_divide_iff)
  define k where "k = bitlen p - bitlen q"
  have il: "ilog2 x = (if pow2 k \<le> x then k else k - 1)"
    by (simp add: ilog2_def pq k_def Let_def)
  have b1: "1 \<le> bitlen p" "1 \<le> bitlen q"
    using p q by (auto simp: bitlen_alt_def)
  have "2 ^ nat (bitlen p - 1) \<le> p" "p < 2 ^ nat (bitlen p)"
    "2 ^ nat (bitlen q - 1) \<le> q" "q < 2 ^ nat (bitlen q)"
    using bitlen_bounds [OF p] bitlen_bounds [OF q] by auto
  then have "(2::rat) ^ nat (bitlen p - 1) \<le> of_int p" "(of_int p :: rat) < 2 ^ nat (bitlen p)"
    "(2::rat) ^ nat (bitlen q - 1) \<le> of_int q" "(of_int q :: rat) < 2 ^ nat (bitlen q)"
    by (metis of_int_le_iff of_int_numeral of_int_power, metis of_int_less_iff of_int_numeral of_int_power,
        metis of_int_le_iff of_int_numeral of_int_power, metis of_int_less_iff of_int_numeral of_int_power)
  then have bp: "pow2 (bitlen p - 1) \<le> of_int p" "of_int p < pow2 (bitlen p)"
    and bq: "pow2 (bitlen q - 1) \<le> of_int q" "of_int q < pow2 (bitlen q)"
    using b1 by (simp_all add: pow2_def)
  have "pow2 (k - 1) = pow2 (bitlen p - 1) / pow2 (bitlen q)"
    unfolding k_def pow2_diff [symmetric] by (simp add: algebra_simps)
  also have "\<dots> \<le> of_int p / of_int q"
    using bp bq q pow2_pos [of "bitlen p - 1"] by (intro frac_le) auto
  finally have lo: "pow2 (k - 1) \<le> x" by (simp add: x)
  have "of_int p / of_int q < pow2 (bitlen p) / pow2 (bitlen q - 1)"
    using bp bq p q pow2_pos [of "bitlen q - 1"] by (intro frac_less) auto
  also have "\<dots> = pow2 (k + 1)"
    unfolding k_def pow2_diff [symmetric] by (simp add: algebra_simps)
  finally have hi: "x < pow2 (k + 1)" by (simp add: x)
  show "pow2 (ilog2 x) \<le> x" using lo by (simp add: il)
  show "x < pow2 (ilog2 x + 1)" using hi by (auto simp: il)
qed

lemma round_even_nonneg: "0 \<le> q \<Longrightarrow> 0 \<le> round_even q"
  by (simp add: round_even_def Let_def)

lemma round_even_of_int: "round_even (of_int k) = k"
  by (simp add: round_even_def Let_def)

lemma round_even_error: "\<bar>of_int (round_even q) - q\<bar> \<le> 1 / 2"
proof -
  define f where "f = \<lfloor>q\<rfloor>"
  define r where "r = q - of_int f"
  have r: "0 \<le> r" "r < 1"
    unfolding r_def f_def by linarith+
  have q: "q = of_int f + r"
    by (simp add: r_def)
  have "round_even q = (if r < 1 / 2 then f else if 1 / 2 < r then f + 1
                        else if even f then f else f + 1)"
    by (simp add: round_even_def Let_def f_def r_def)
  then show ?thesis
    using r by (auto simp: q abs_le_iff)
qed

lemma f64_round_nonneg: "0 \<le> x \<Longrightarrow> 0 \<le> f64_round x"
  using pow2_pos [of "max (ilog2 \<bar>x\<bar>) (- 1022) - 52"]
  by (simp add: f64_round_def Let_def round_even_nonneg)

lemma f64_round_uminus: "f64_round (- x) = - f64_round x"
  by (simp add: f64_round_def Let_def)

lemma f64_round_nonpos: "x \<le> 0 \<Longrightarrow> f64_round x \<le> 0"
  using f64_round_nonneg [of "- x"] by (simp add: f64_round_uminus)

lemma f64_round_error:
  assumes "pow2 (- 1022) \<le> \<bar>x\<bar>"
  shows "\<bar>f64_round x - x\<bar> \<le> \<bar>x\<bar> / 2 ^ 53"
proof -
  have x0: "0 < \<bar>x\<bar>" "x \<noteq> 0"
    using assms pow2_pos [of "- 1022"] by auto
  define e where "e = ilog2 \<bar>x\<bar>"
  define u where "u = pow2 (e - 52)"
  define m where "m = round_even (\<bar>x\<bar> / u)"
  have u: "0 < u" by (simp add: u_def pow2_pos)
  have "pow2 (- 1022) < pow2 (e + 1)"
    using assms ilog2_bounds(2) [OF x0(1)] by (simp add: e_def)
  then have e: "- 1022 \<le> e"
    using pow2_less_cancel [of "- 1022" "e + 1"] by simp
  then have r: "f64_round x = sgn x * of_int m * u"
    using x0 by (simp add: f64_round_def Let_def e_def u_def m_def max_def)
  have "f64_round x - x = sgn x * (of_int m * u - \<bar>x\<bar>)"
    by (simp add: r right_diff_distrib mult.assoc mult_sgn_abs)
  then have "\<bar>f64_round x - x\<bar> = \<bar>of_int m * u - \<bar>x\<bar>\<bar>"
    using x0 by (simp add: abs_mult abs_sgn_eq)
  also have "\<dots> = \<bar>(of_int m - \<bar>x\<bar> / u) * u\<bar>"
    using u by (simp add: left_diff_distrib)
  also have "\<dots> = \<bar>of_int m - \<bar>x\<bar> / u\<bar> * u"
    using u by (simp only: abs_mult abs_of_pos)
  also have "\<dots> \<le> 1 / 2 * u"
    using round_even_error [of "\<bar>x\<bar> / u"] u unfolding m_def
    by (intro mult_right_mono) auto
  also have "\<dots> = pow2 e / 2 ^ 53"
  proof -
    have "pow2 52 = 2 ^ 52" by (simp add: pow2_def)
    then show ?thesis by (simp add: u_def pow2_diff [of e 52])
  qed
  also have "\<dots> \<le> \<bar>x\<bar> / 2 ^ 53"
    using ilog2_bounds(1) [OF x0(1)] by (simp add: e_def divide_right_mono)
  finally show ?thesis .
qed

lemma f64_round_of_int:
  assumes "\<bar>i\<bar> < 2 ^ 53"
  shows "f64_round (of_int i) = of_int i"
proof (cases "i = 0")
  case True
  then show ?thesis by (simp add: f64_round_def)
next
  case False
  define x :: rat where "x = of_int \<bar>i\<bar>"
  have x: "1 \<le> x" "x < 2 ^ 53" "0 < x"
    using False assms unfolding x_def
    by (simp_all add: of_int_less_numeral_power_cancel_iff flip: of_int_abs)
  define e where "e = ilog2 x"
  have "pow2 0 < pow2 (e + 1)"
    using x(1) ilog2_bounds(2) [OF x(3)] by (simp add: e_def pow2_def)
  then have e0: "0 \<le> e"
    using pow2_less_cancel [of 0 "e + 1"] by simp
  have "pow2 e < pow2 53"
    using x(2) ilog2_bounds(1) [OF x(3)] by (simp add: e_def pow2_def)
  then have e53: "e \<le> 52"
    using pow2_less_cancel [of e 53] by simp
  define n where "n = nat (52 - e)"
  have u: "pow2 (max e (- 1022) - 52) = 1 / 2 ^ n"
    using e0 e53 by (cases "e = 52") (auto simp: pow2_def n_def max_def)
  have "x / (1 / 2 ^ n) = of_int (\<bar>i\<bar> * 2 ^ n)"
    by (simp add: x_def)
  then have m: "round_even (x / (1 / 2 ^ n)) = \<bar>i\<bar> * 2 ^ n"
    by (simp only: round_even_of_int)
  have ax: "\<bar>rat_of_int i\<bar> = x" by (simp add: x_def)
  have "f64_round (of_int i) = sgn (of_int i) * of_int (\<bar>i\<bar> * 2 ^ n) * (1 / 2 ^ n)"
    using False u m by (simp add: f64_round_def Let_def ax flip: e_def)
  also have "\<dots> = sgn (of_int i) * \<bar>of_int i\<bar>"
    by simp
  also have "\<dots> = of_int i"
    by (simp only: mult_sgn_abs)
  finally show ?thesis .
qed

lemma Second_eq: "Second = 1000000000"
  by (simp add: Second_def Nanosecond_def)

lemma sdiv_smod_Second_nonneg:
  "0 \<le> d \<Longrightarrow> d sdiv Second = d div 1000000000 \<and> d smod Second = d mod 1000000000"
  by (cases "d = 0") (simp_all add: Second_eq signed_divide_int_def signed_modulo_int_def)

lemma sdiv_smod_Second_uminus:
  "(- d) sdiv Second = - (d sdiv Second) \<and> (- d) smod Second = - (d smod Second)"
  by (simp add: Second_eq signed_divide_int_def signed_modulo_int_def)

lemma f64_lit_1e9: "f64_lit 1000000000 = 1000000000"
  using f64_round_of_int [of 1000000000] by (simp add: f64_lit_def)

lemma Seconds_uminus: "Seconds (- d) = - Seconds d"
proof -
  define a where "a = f64_of_int (d sdiv Second)"
  define b where "b = f64_div (f64_of_int (d smod Second)) (f64_lit 1000000000)"
  have "f64_of_int (- (d sdiv Second)) = - a"
    by (simp add: a_def f64_of_int_def f64_round_uminus)
  moreover have "f64_div (f64_of_int (- (d smod Second))) (f64_lit 1000000000) = - b"
    by (simp add: b_def f64_of_int_def f64_div_def f64_round_uminus)
  ultimately have "Seconds (- d) = f64_round (- (a + b))"
    by (simp add: Seconds_def Let_def sdiv_smod_Second_uminus f64_add_def)
  also have "\<dots> = - f64_round (a + b)"
    by (simp only: f64_round_uminus)
  finally show ?thesis
    by (simp add: Seconds_def Let_def f64_add_def a_def b_def)
qed

lemma Seconds_nonneg:
  assumes "0 \<le> d" shows "0 \<le> Seconds d"
proof -
  have "0 \<le> d div 1000000000" "0 \<le> d mod 1000000000"
    using assms by (simp_all add: pos_imp_zdiv_nonneg_iff)
  then have "0 \<le> f64_of_int (d div 1000000000)" "0 \<le> f64_of_int (d mod 1000000000)"
    unfolding f64_of_int_def by (simp_all add: f64_round_nonneg)
  then show ?thesis
    using assms 
    by (simp add: Seconds_def Let_def sdiv_smod_Second_nonneg f64_add_def f64_div_def
        f64_lit_1e9 f64_round_nonneg)
qed

lemma Seconds_nonpos: "d \<le> 0 \<Longrightarrow> Seconds d \<le> 0"
  using Seconds_nonneg [of "- d"] by (simp add: Seconds_uminus)

lemma sdiv_smod_Second_bounds:
  assumes "\<bar>d\<bar> \<le> 2 ^ 63"
  shows "\<bar>d sdiv Second\<bar> \<le> 9223372036" and "\<bar>d smod Second\<bar> < 1000000000"
proof -
  from assms have "\<bar>d\<bar> div 1000000000 \<le> 2 ^ 63 div 1000000000"
    by (intro zdiv_mono1) simp_all
  then show "\<bar>d sdiv Second\<bar> \<le> 9223372036"
    by (simp add: Second_eq signed_divide_int_def abs_mult abs_sgn_eq)
  have "\<bar>d\<bar> mod 1000000000 < 1000000000"
    by simp
  then show "\<bar>d smod Second\<bar> < 1000000000"
    by (simp add: Second_eq signed_modulo_int_def abs_mult abs_sgn_eq)
qed

lemma Seconds_eq:
  assumes "\<bar>d\<bar> \<le> 2 ^ 63"
  shows "Seconds d = f64_round (of_int (d sdiv Second)
                       + f64_round (of_int (d smod Second) / 1000000000))"
proof -
  have 1: "\<bar>d sdiv Second\<bar> < 2 ^ 53" and 2: "\<bar>d smod Second\<bar> < 2 ^ 53"
    using sdiv_smod_Second_bounds [OF assms] by simp_all
  show ?thesis
    by (simp add: Seconds_def Let_def f64_of_int_def f64_add_def f64_div_def f64_lit_1e9
        f64_round_of_int [OF 1] f64_round_of_int [OF 2])
qed

lemma pow2_tiny: "pow2 (- 1022) \<le> 1 / 2000000000"
proof -
  have "pow2 (- 1022) \<le> pow2 (- 31)" by (rule pow2_mono) simp
  also have "\<dots> \<le> 1 / 2000000000" by (simp add: pow2_def)
  finally show ?thesis .
qed

lemma f64_round_error0:
  "x = 0 \<or> pow2 (- 1022) \<le> \<bar>x\<bar> \<Longrightarrow> \<bar>f64_round x - x\<bar> \<le> \<bar>x\<bar> / 2 ^ 53"
  using f64_round_error [of x] by (auto simp: f64_round_def)

lemma Seconds_accuracy_nonneg:
  assumes "0 \<le> d" "d \<le> 2 ^ 63"
  shows "\<bar>Seconds d - of_int d / 1000000000\<bar> \<le> (of_int d / 1000000000) / 2 ^ 51"
proof -
  define s where "s = d div 1000000000"
  define n where "n = d mod 1000000000"
  define x :: rat where "x = of_int d / 1000000000"
  define a :: rat where "a = of_int n / 1000000000"
  define y where "y = f64_round a"
  define z where "z = of_int s + y"
  have sn: "0 \<le> s" "0 \<le> n"
    using assms by (simp_all add: s_def n_def pos_imp_zdiv_nonneg_iff)
  have "d = s * 1000000000 + n"
    by (simp add: s_def n_def)
  then have "rat_of_int d = of_int s * 1000000000 + of_int n"
    by (metis of_int_add of_int_mult of_int_numeral)
  then have x: "x = of_int s + a"
    by (simp add: x_def a_def add_divide_distrib)
  have a0: "0 \<le> a" using sn by (simp add: a_def)
  have a1: "a = 0 \<or> 1 / 1000000000 \<le> a"
  proof (cases "n = 0")
    case True then show ?thesis by (simp add: a_def)
  next
    case False
    then have "1 \<le> n" using sn by simp
    then have "(1::rat) \<le> of_int n" by simp
    then show ?thesis by (simp add: a_def divide_right_mono)
  qed
  have ya: "\<bar>y - a\<bar> \<le> a / 2 ^ 53"
    unfolding y_def using f64_round_error0 [of a] a0 a1 pow2_tiny by auto
  have y0: "0 \<le> y" unfolding y_def using a0 by (rule f64_round_nonneg)
  have z0: "0 \<le> z" using sn y0 by (simp add: z_def)
  have z1: "z = 0 \<or> pow2 (- 1022) \<le> \<bar>z\<bar>"
  proof (cases "s = 0")
    case False
    then have "1 \<le> s" using sn by simp
    then have "(1::rat) \<le> of_int s" by simp
    then have "1 \<le> z" using y0 by (simp add: z_def)
    moreover have "pow2 (- 1022) \<le> 1" using pow2_tiny by simp
    ultimately show ?thesis by simp
  next
    case True
    show ?thesis
    proof (cases "a = 0")
      case True
      then show ?thesis using \<open>s = 0\<close> by (simp add: z_def y_def f64_round_def)
    next
      case False
      then have "1 / 1000000000 \<le> a" using a1 by simp
      moreover have "a - a / 2 ^ 53 \<le> y" using ya by linarith
      moreover have "a / 2 \<le> a - a / 2 ^ 53" using a0 by simp
      ultimately have "1 / 2000000000 \<le> y" by simp
      then show ?thesis using \<open>s = 0\<close> pow2_tiny by (simp add: z_def)
    qed
  qed
  have rz: "\<bar>f64_round z - z\<bar> \<le> z / 2 ^ 53"
    using f64_round_error0 [OF z1] z0 by simp
  have S: "Seconds d = f64_round z"
    using assms Seconds_eq [of d] sdiv_smod_Second_nonneg [of d]
    by (simp add: z_def y_def a_def s_def n_def)
  have ax: "a \<le> x" using sn by (simp add: x)
  have zx: "z \<le> x + x / 2 ^ 53"
  proof -
    have "y \<le> a + a / 2 ^ 53" using ya by linarith
    then have "z \<le> of_int s + (a + a / 2 ^ 53)" by (simp add: z_def)
    also have "\<dots> \<le> x + x / 2 ^ 53" using ax by (simp add: x divide_right_mono)
    finally show ?thesis .
  qed
  have "\<bar>Seconds d - x\<bar> \<le> \<bar>f64_round z - z\<bar> + \<bar>y - a\<bar>"
    by (simp add: S x z_def)
  also have "\<dots> \<le> z / 2 ^ 53 + a / 2 ^ 53"
    using rz ya by simp
  also have "\<dots> \<le> (x + x / 2 ^ 53) / 2 ^ 53 + x / 2 ^ 53"
    using zx ax by (intro add_mono divide_right_mono) simp_all
  also have "\<dots> \<le> x / 2 ^ 51"
  proof -
    have "0 \<le> x" using a0 sn by (simp add: x)
    then show ?thesis by simp
  qed
  finally show ?thesis by (simp add: x_def)
qed

lemma Seconds_accuracy:
  assumes "minDuration \<le> d" "d \<le> maxDuration"
  shows "\<bar>Seconds d - of_int d / 1000000000\<bar> \<le> \<bar>of_int d / 1000000000\<bar> / 2 ^ 51"
proof (cases "0 \<le> d")
  case True
  moreover have "d \<le> 2 ^ 63" using assms(2) by (simp add: maxDuration_def)
  ultimately show ?thesis using Seconds_accuracy_nonneg [of d] by simp
next
  case False
  then have "0 \<le> - d" by simp
  moreover have "- d \<le> 2 ^ 63" using assms(1) by (simp add: minDuration_def)
  ultimately have "\<bar>Seconds (- d) - of_int (- d) / 1000000000\<bar>
      \<le> (of_int (- d) / 1000000000) / 2 ^ 51"
    by (rule Seconds_accuracy_nonneg)
  moreover have "Seconds (- d) - of_int (- d) / 1000000000 = - (Seconds d - of_int d / 1000000000)"
    by (simp add: Seconds_uminus)
  moreover have "rat_of_int (- d) / 1000000000 = \<bar>of_int d / 1000000000\<bar>"
    using False by simp
  ultimately show ?thesis
    by (simp only: abs_minus_cancel)
qed

lemma f64_round_half: "f64_round (1 / 2) = 1 / 2"
  by code_simp

lemma f64_round_numeral: "(numeral n :: int) < 2 ^ 53 \<Longrightarrow> f64_round (numeral n) = numeral n"
  using f64_round_of_int [of "numeral n"] by simp

lemma f64_round_1: "f64_round 1 = 1"
  using f64_round_of_int [of 1] by simp

lemma Seconds_of_whole:
  assumes "\<bar>k\<bar> \<le> 9223372036"
  shows "Seconds (k * Second) = of_int k"
proof -
  have "\<bar>k * Second\<bar> \<le> 2 ^ 63"
    using assms by (simp add: Second_eq abs_mult)
  moreover have "(k * Second) sdiv Second = k" "(k * Second) smod Second = 0"
    by (simp_all add: Second_eq signed_divide_int_def signed_modulo_int_def abs_mult sgn_mult mult_sgn_abs)
  moreover have "f64_round 0 = 0" by (simp add: f64_round_def)
  moreover have "f64_round (of_int k) = of_int k"
    using assms by (intro f64_round_of_int) simp
  ultimately show ?thesis
    by (simp add: Seconds_eq)
qed

lemma Seconds_units: "Seconds Second = 1" "Seconds Minute = 60" "Seconds Hour = 3600"
  using Seconds_of_whole [of 1] Seconds_of_whole [of 60] Seconds_of_whole [of 3600]
  by (simp_all add: Minute_def Hour_def)

lemma bucket_values:
  "f64_mul (f64_lit (1 / 2)) (Seconds Second) = 1 / 2"
  "f64_mul (f64_lit 1) (Seconds Second) = 1"
  "f64_mul (f64_lit 2) (Seconds Second) = 2"
  "f64_mul (f64_lit 5) (Seconds Second) = 5"
  "f64_mul (f64_lit 10) (Seconds Second) = 10"
  "f64_mul (f64_lit 20) (Seconds Second) = 20"
  "f64_mul (f64_lit 30) (Seconds Second) = 30"
  "f64_mul (f64_lit 40) (Seconds Second) = 40"
  "f64_mul (f64_lit 50) (Seconds Second) = 50"
  "f64_mul (f64_lit 60) (Seconds Second) = 60"
  "f64_mul (f64_lit 90) (Seconds Second) = 90"
  "f64_mul (f64_lit 2) (Seconds Minute) = 120"
  "f64_mul (f64_lit 3) (Seconds Minute) = 180"
  "f64_mul (f64_lit 5) (Seconds Minute) = 300"
  "f64_mul (f64_lit 10) (Seconds Minute) = 600"
  "f64_mul (f64_lit 20) (Seconds Minute) = 1200"
  "f64_mul (f64_lit 30) (Seconds Minute) = 1800"
  "f64_mul (f64_lit 1) (Seconds Hour) = 3600"
  by (simp_all add: f64_mul_def f64_lit_def Seconds_units f64_round_numeral f64_round_1 f64_round_half)

lemma Sub_in_range:
  "0 \<le> elapsed t u \<Longrightarrow> elapsed t u \<le> maxDuration \<Longrightarrow> Sub t u = elapsed t u"
  by (simp add: Sub_def Let_def minDuration_def)

lemma Sub_nonpos: "elapsed t u \<le> 0 \<Longrightarrow> Sub t u \<le> 0"
  by (simp add: Sub_def Let_def minDuration_def maxDuration_def)

lemma Seconds_2500ms: "Seconds 2500000000 = 5 / 2"
  by code_simp

section \<open>Properties of the registration model\<close>

lemma calls_stored: "calls (store_stores sts cl (store_informers infs cfg s)) = calls s"
  by (simp add: store_stores_def store_informers_def)

lemma stored_again:
  "store_stores sts cl (store_informers infs cfg
     (store_stores sts cl (store_informers infs cfg s)\<lparr>calls := cs\<rparr>))
   = store_stores sts cl (store_informers infs cfg s)\<lparr>calls := cs\<rparr>"
  by (simp add: store_stores_def store_informers_def)

lemma register_state: "\<exists>cs. snd (register ext s) = s\<lparr>calls := cs\<rparr>"
  by (auto simp: register_def invoke_def split: option.splits)

lemma register_cong:
  assumes "\<And>cs. ext (s\<lparr>calls := cs\<rparr>) = ext' (s\<lparr>calls := cs\<rparr>)"
  shows "register ext s = register ext' s"
proof -
  have "ext s = ext' s"
    using assms [of "calls s"] by simp
  then show ?thesis
    using assms by (auto simp: register_def invoke_def split: option.splits)
qed

lemma register_steps:
  fixes ext :: "('i, 's, 'c, 'k) state \<Rightarrow> call \<Rightarrow> 'e option"
  shows "ext (s\<lparr>calls := calls s @ take 0 setup_calls\<rparr>) (setup_calls ! 0) = Some e
      \<Longrightarrow> register ext s = (Return (Some e), s\<lparr>calls := calls s @ take 1 setup_calls\<rparr>)"
    and "ext (s\<lparr>calls := calls s @ take 0 setup_calls\<rparr>) (setup_calls ! 0) = None
      \<Longrightarrow> ext (s\<lparr>calls := calls s @ take 1 setup_calls\<rparr>) (setup_calls ! 1) = Some e
      \<Longrightarrow> register ext s = (Return (Some e), s\<lparr>calls := calls s @ take 2 setup_calls\<rparr>)"
    and "ext (s\<lparr>calls := calls s @ take 0 setup_calls\<rparr>) (setup_calls ! 0) = None
      \<Longrightarrow> ext (s\<lparr>calls := calls s @ take 1 setup_calls\<rparr>) (setup_calls ! 1) = None
      \<Longrightarrow> ext (s\<lparr>calls := calls s @ take 2 setup_calls\<rparr>) (setup_calls ! 2) = Some e
      \<Longrightarrow> register ext s = (Return (Some e), s\<lparr>calls := calls s @ take 3 setup_calls\<rparr>)"
    and "ext (s\<lparr>calls := calls s @ take 0 setup_calls\<rparr>) (setup_calls ! 0) = None
      \<Longrightarrow> ext (s\<lparr>calls := calls s @ take 1 setup_calls\<rparr>) (setup_calls ! 1) = None
      \<Longrightarrow> ext (s\<lparr>calls := calls s @ take 2 setup_calls\<rparr>) (setup_calls ! 2) = None
      \<Longrightarrow> register ext s
          = (Return (ext (s\<lparr>calls := calls s @ take 3 setup_calls\<rparr>) (setup_calls ! 3)),
             s\<lparr>calls := calls s @ setup_calls\<rparr>)"
  by (simp_all add: setup_calls_def register_def invoke_def)

section \<open>getTransitionTimeSeconds\<close>

text \<open>
  Claim C1, as stated, fails. From the zero time (January 1 of year 1) to January 1, 2026
  there are 63902822400 seconds, more than a \<^verbatim>\<open>Duration\<close> holds (about 292 years):
  \<^verbatim>\<open>Sub\<close> returns the largest \<^verbatim>\<open>Duration\<close>, and the function returns its
  9223372036.85 seconds: neither the elapsed seconds nor their \<^verbatim>\<open>float64\<close>.
\<close>

theorem getTransitionTimeSeconds_saturated_counterexample:
  "0 \<le> elapsed (Time year2026) (Time zeroTime)
   \<and> rat_of_int (elapsed (Time year2026) (Time zeroTime)) / 1000000000 = 63902822400
   \<and> getTransitionTimeSeconds (Some zeroTime) (Some year2026)
       = (4835703278458517 / 524288, None)
   \<and> getTransitionTimeSeconds (Some zeroTime) (Some year2026)
       \<noteq> (rat_of_int (elapsed (Time year2026) (Time zeroTime)) / 1000000000, None)
   \<and> getTransitionTimeSeconds (Some zeroTime) (Some year2026)
       \<noteq> (Seconds (elapsed (Time year2026) (Time zeroTime)), None)
   \<and> fst (getTransitionTimeSeconds (Some zeroTime) (Some year2026)) < 9223372037"
  by code_simp

text \<open>
  Claim C1, amended. For two present timestamps with \<open>newTime\<close> not before \<open>oldTime\<close>
  whose difference fits a \<^verbatim>\<open>Duration\<close> (at most \<open>2^63 - 1\<close> nanoseconds), the function
  returns a nil error and the \<^verbatim>\<open>float64\<close> seconds of the exact nanosecond difference,
  unclamped; that value is within a relative error of \<open>2^-51\<close> of the elapsed seconds, so
  fractional seconds are kept.
\<close>

theorem getTransitionTimeSeconds_elapsed:
  assumes "0 \<le> elapsed (Time new) (Time old)"
    and "elapsed (Time new) (Time old) \<le> maxDuration"
  shows "getTransitionTimeSeconds (Some old) (Some new)
           = (Seconds (elapsed (Time new) (Time old)), None)
       \<and> \<bar>Seconds (elapsed (Time new) (Time old))
            - of_int (elapsed (Time new) (Time old)) / 1000000000\<bar>
          \<le> of_int (elapsed (Time new) (Time old)) / 1000000000 / 2 ^ 51"
proof -
  define d where "d = elapsed (Time new) (Time old)"
  have d: "0 \<le> d" "d \<le> maxDuration" using assms by (simp_all add: d_def)
  have "Sub (Time new) (Time old) = d"
    using assms unfolding d_def by (rule Sub_in_range)
  moreover have "\<not> Seconds d < 0"
    using Seconds_nonneg [OF d(1)] by simp
  ultimately have "getTransitionTimeSeconds (Some old) (Some new) = (Seconds d, None)"
    by (simp add: getTransitionTimeSeconds_def)
  moreover have "minDuration \<le> d"
    using d(1) by (simp add: minDuration_def)
  then have "\<bar>Seconds d - of_int d / 1000000000\<bar> \<le> \<bar>of_int d / 1000000000\<bar> / 2 ^ 51"
    using d(2) by (rule Seconds_accuracy)
  then have "\<bar>Seconds d - of_int d / 1000000000\<bar> \<le> of_int d / 1000000000 / 2 ^ 51"
    using d(1) by simp
  ultimately show ?thesis
    unfolding d_def by simp
qed

text \<open>Claim C1, an instance: 2.5 seconds after \<open>year2026\<close> gives exactly 2.5.\<close>

theorem getTransitionTimeSeconds_elapsed_witness:
  "0 \<le> elapsed (Time after2500ms) (Time year2026)
   \<and> elapsed (Time after2500ms) (Time year2026) \<le> maxDuration
   \<and> getTransitionTimeSeconds (Some year2026) (Some after2500ms) = (5 / 2, None)"
proof -
  have e: "elapsed (Time after2500ms) (Time year2026) = 2500000000"
    by (simp add: elapsed_def after2500ms_def year2026_def Second_eq)
  then have h: "0 \<le> elapsed (Time after2500ms) (Time year2026)"
    "elapsed (Time after2500ms) (Time year2026) \<le> maxDuration"
    by (simp_all add: maxDuration_def)
  show ?thesis
    using getTransitionTimeSeconds_elapsed [OF h] h by (simp add: e Seconds_2500ms)
qed

text \<open>
  Claim C2. For two present timestamps with \<open>newTime\<close> earlier than \<open>oldTime\<close>, or equal
  to it, the function returns 0.0 and a nil error.
\<close>

theorem getTransitionTimeSeconds_floor:
  assumes "elapsed (Time new) (Time old) \<le> 0"
  shows "getTransitionTimeSeconds (Some old) (Some new) = (0, None)"
proof -
  have "Seconds (Sub (Time new) (Time old)) \<le> 0"
    using assms by (intro Seconds_nonpos Sub_nonpos)
  then show ?thesis
    by (auto simp: getTransitionTimeSeconds_def Let_def)
qed

text \<open>
  Claim C2, two instances: \<open>newTime\<close> one millisecond before \<open>oldTime\<close>, and equal
  timestamps.
\<close>

theorem getTransitionTimeSeconds_floor_witness:
  "elapsed (Time before1ms) (Time year2026) < 0
   \<and> getTransitionTimeSeconds (Some year2026) (Some before1ms) = (0, None)
   \<and> elapsed (Time year2026) (Time year2026) = 0
   \<and> getTransitionTimeSeconds (Some year2026) (Some year2026) = (0, None)"
proof -
  have 1: "elapsed (Time before1ms) (Time year2026) = - 1000000"
    by (simp add: elapsed_def before1ms_def year2026_def Second_eq)
  have 2: "elapsed (Time year2026) (Time year2026) = 0"
    by (simp add: elapsed_def year2026_def)
  show ?thesis
    using getTransitionTimeSeconds_floor [of before1ms year2026]
      getTransitionTimeSeconds_floor [of year2026 year2026]
    by (simp add: 1 2)
qed

text \<open>
  Claim C3. The function returns a non-nil error exactly when one of the two timestamps is
  nil; the error then carries both inputs as its operands, and the value returned with it
  is the constant 0, not a computed or clamped duration.
\<close>

theorem getTransitionTimeSeconds_error_iff:
  "(snd (getTransitionTimeSeconds oldTime newTime) \<noteq> None) = (oldTime = None \<or> newTime = None)
   \<and> (oldTime = None \<or> newTime = None \<longrightarrow>
        getTransitionTimeSeconds oldTime newTime
          = (0, Some (Errorf ''missing phase transition timestamp, newTime: %v, oldTime: %v''
                        [newTime, oldTime])))"
  by (cases oldTime; cases newTime) (simp_all add: getTransitionTimeSeconds_def Let_def)

text \<open>Claim C3, instances: a nil \<open>oldTime\<close> gives the error, two present times none.\<close>

theorem getTransitionTimeSeconds_error_iff_witness:
  "snd (getTransitionTimeSeconds None (Some year2026)) \<noteq> None
   \<and> getTransitionTimeSeconds None (Some year2026)
        = (0, Some (Errorf ''missing phase transition timestamp, newTime: %v, oldTime: %v''
                      [Some year2026, None]))
   \<and> snd (getTransitionTimeSeconds (Some year2026) (Some after2500ms)) = None"
  using getTransitionTimeSeconds_error_iff [of None "Some year2026"]
    getTransitionTimeSeconds_error_iff [of "Some year2026" "Some after2500ms"]
  by simp

text \<open>
  Claim C6. Whatever the inputs, nil or not, the \<^verbatim>\<open>float64\<close> returned is not negative.
\<close>

theorem getTransitionTimeSeconds_nonneg:
  "0 \<le> fst (getTransitionTimeSeconds oldTime newTime)"
  by (cases oldTime; cases newTime) (simp_all add: getTransitionTimeSeconds_def Let_def)

text \<open>
  Claim C8. When one of the timestamps is nil, the numeric component of the result is 0.0.
\<close>

theorem getTransitionTimeSeconds_nil_value:
  "oldTime = None \<or> newTime = None \<Longrightarrow> fst (getTransitionTimeSeconds oldTime newTime) = 0"
  by (cases oldTime; cases newTime) (simp_all add: getTransitionTimeSeconds_def)

text \<open>Claim C8, instances: \<open>newTime\<close> nil, \<open>oldTime\<close> nil, and both nil.\<close>

theorem getTransitionTimeSeconds_nil_value_witness:
  "fst (getTransitionTimeSeconds (Some year2026) None) = 0
   \<and> fst (getTransitionTimeSeconds None (Some year2026)) = 0
   \<and> fst (getTransitionTimeSeconds None None) = 0"
  using getTransitionTimeSeconds_nil_value [of "Some year2026" None]
    getTransitionTimeSeconds_nil_value [of None "Some year2026"]
    getTransitionTimeSeconds_nil_value [of None None]
  by simp

section \<open>PhaseTransitionTimeBuckets\<close>

text \<open>
  Claim C4. In every heap the call returns a slice whose elements are the 18 values 0.5, 1,
  2, 5, 10, 20, 30, 40, 50, 60, 90, 120, 180, 300, 600, 1200, 1800, 3600: the products of the
  source evaluate in \<^verbatim>\<open>float64\<close> to these numbers. The sequence is strictly increasing,
  starts at 0.5 and ends at 3600. The function has no error result.
\<close>

theorem PhaseTransitionTimeBuckets_values:
  "\<exists>xs. arrays (snd (PhaseTransitionTimeBuckets h)) (fst (PhaseTransitionTimeBuckets h)) = Some xs
     \<and> xs = [1 / 2, 1, 2, 5, 10, 20, 30, 40, 50, 60, 90, 120, 180, 300, 600, 1200, 1800, 3600]
     \<and> length xs = 18 \<and> sorted_wrt (<) xs \<and> hd xs = 1 / 2 \<and> last xs = 3600"
  by (simp add: PhaseTransitionTimeBuckets_def alloc_def bucket_values)

text \<open>
  Claim C7. The elements returned do not depend on the heap in which the call is made:
  any two calls return the same 18 values. In particular a second call made after the
  first, even after the caller has overwritten the array of the first slice with any
  \<open>ys\<close>, returns a different array holding the values the first call returned.
\<close>

theorem PhaseTransitionTimeBuckets_stable:
  "arrays (snd (PhaseTransitionTimeBuckets h)) (fst (PhaseTransitionTimeBuckets h))
     = arrays (snd (PhaseTransitionTimeBuckets h')) (fst (PhaseTransitionTimeBuckets h'))
   \<and> map_option length (arrays (snd (PhaseTransitionTimeBuckets h))
         (fst (PhaseTransitionTimeBuckets h))) = Some 18
   \<and> (let (a, h1) = PhaseTransitionTimeBuckets h;
           (b, h2) = PhaseTransitionTimeBuckets (h1\<lparr>arrays := (arrays h1)(a \<mapsto> ys)\<rparr>)
       in b \<noteq> a \<and> arrays h2 b = arrays h1 a)"
  by (simp add: PhaseTransitionTimeBuckets_def alloc_def)

section \<open>SetupMetrics and UpdateVMIMigrationInformer\<close>

text \<open>
  Claim C5, as stated, fails in its last part. When \<^verbatim>\<open>workqueue.SetupMetrics\<close> returns
  an error, \<open>SetupMetrics\<close> returns that error, but the state is not the one it started
  from: \<^verbatim>\<open>client.SetupMetrics\<close> has been called and is not undone, and the package-level
  references hold the supplied values.
\<close>

theorem SetupMetrics_keeps_state_counterexample:
  "fst (SetupMetrics reject_workqueue (Some informers0) (Some stores0) 11 12 state0)
     = Return (Some ''rejected'')
   \<and> calls (snd (SetupMetrics reject_workqueue (Some informers0) (Some stores0) 11 12 state0))
     = [client_SetupMetrics, workqueue_SetupMetrics]
   \<and> vmInformer (snd (SetupMetrics reject_workqueue (Some informers0) (Some stores0) 11 12 state0))
     = 1
   \<and> snd (SetupMetrics reject_workqueue (Some informers0) (Some stores0) 11 12 state0) \<noteq> state0"
  by (simp add: SetupMetrics_def register_def invoke_def store_stores_def store_informers_def
      reject_workqueue_def state0_def informers0_def stores0_def)

text \<open>
  Claim C5, amended. \<open>SetupMetrics\<close> makes its registrations in the order of
  \<open>setup_calls\<close>. If the registration at position \<open>n\<close> is the first to return an error,
  \<open>SetupMetrics\<close> returns that error unchanged and has made the calls up to position
  \<open>n\<close> and no later one; if none returns an error, it returns nil after all four. In both
  cases the references stored before the registrations and the calls already made are
  kept: nothing is rolled back.
\<close>

theorem SetupMetrics_first_error:
  fixes ext :: "('i, 's, 'c, 'k) state \<Rightarrow> call \<Rightarrow> 'e option"
  assumes "s1 = store_stores sts cl (store_informers infs cfg s)"
  shows "(n < length setup_calls
          \<and> (\<forall>i<n. ext (s1\<lparr>calls := calls s @ take i setup_calls\<rparr>) (setup_calls ! i) = None)
          \<and> ext (s1\<lparr>calls := calls s @ take n setup_calls\<rparr>) (setup_calls ! n) = Some e
          \<longrightarrow> SetupMetrics ext (Some infs) (Some sts) cfg cl s
              = (Return (Some e), s1\<lparr>calls := calls s @ take (Suc n) setup_calls\<rparr>))
       \<and> ((\<forall>i<length setup_calls.
              ext (s1\<lparr>calls := calls s @ take i setup_calls\<rparr>) (setup_calls ! i) = None)
          \<longrightarrow> SetupMetrics ext (Some infs) (Some sts) cfg cl s
              = (Return None, s1\<lparr>calls := calls s @ setup_calls\<rparr>))"
proof (intro conjI impI)
  have c: "calls s1 = calls s"
    by (simp add: assms calls_stored)
  have S: "SetupMetrics ext (Some infs) (Some sts) cfg cl s = register ext s1"
    by (simp add: SetupMetrics_def assms)
  have len: "length setup_calls = 4"
    by (simp add: setup_calls_def)
  note R = register_steps [of ext s1, unfolded c, folded S]
  {
    assume A: "n < length setup_calls
        \<and> (\<forall>i<n. ext (s1\<lparr>calls := calls s @ take i setup_calls\<rparr>) (setup_calls ! i) = None)
        \<and> ext (s1\<lparr>calls := calls s @ take n setup_calls\<rparr>) (setup_calls ! n) = Some e"
    then have H: "ext (s1\<lparr>calls := calls s @ take i setup_calls\<rparr>) (setup_calls ! i) = None"
      if "i < n" for i
      using that by simp
    from A consider "n = 0" | "n = 1" | "n = 2" | "n = 3"
      unfolding len by linarith
    then show "SetupMetrics ext (Some infs) (Some sts) cfg cl s
        = (Return (Some e), s1\<lparr>calls := calls s @ take (Suc n) setup_calls\<rparr>)"
    proof cases
      case 1
      with A show ?thesis by (simp add: R(1))
    next
      case 2
      with A H [of 0] show ?thesis by (simp add: R(2) numeral_2_eq_2)
    next
      case 3
      with A H [of 0] H [of 1] show ?thesis by (simp add: R(3) numeral_3_eq_3)
    next
      case 4
      with A H [of 0] H [of 1] H [of 2] have "SetupMetrics ext (Some infs) (Some sts) cfg cl s
          = (Return (Some e), s1\<lparr>calls := calls s @ setup_calls\<rparr>)"
        by (simp add: R(4))
      with 4 show ?thesis by (simp add: len)
    qed
  }
  {
    assume A: "\<forall>i<length setup_calls.
        ext (s1\<lparr>calls := calls s @ take i setup_calls\<rparr>) (setup_calls ! i) = None"
    then have H: "ext (s1\<lparr>calls := calls s @ take i setup_calls\<rparr>) (setup_calls ! i) = None"
      if "i < 4" for i
      using that by (simp add: len)
    show "SetupMetrics ext (Some infs) (Some sts) cfg cl s
        = (Return None, s1\<lparr>calls := calls s @ setup_calls\<rparr>)"
      using H [of 0] H [of 1] H [of 2] H [of 3] by (simp add: R(4))
  }
qed

text \<open>
  Claim C5, instances: \<^verbatim>\<open>workqueue.SetupMetrics\<close> fails (position 1), and no call fails.
\<close>

theorem SetupMetrics_first_error_witness:
  "(1::nat) < length setup_calls
   \<and> reject_workqueue (store_stores stores0 12 (store_informers informers0 11 state0)
        \<lparr>calls := calls state0 @ take 0 setup_calls\<rparr>) (setup_calls ! 0) = None
   \<and> reject_workqueue (store_stores stores0 12 (store_informers informers0 11 state0)
        \<lparr>calls := calls state0 @ take 1 setup_calls\<rparr>) (setup_calls ! 1) = Some ''rejected''
   \<and> SetupMetrics reject_workqueue (Some informers0) (Some stores0) 11 12 state0
       = (Return (Some ''rejected''),
          store_stores stores0 12 (store_informers informers0 11 state0)
            \<lparr>calls := [client_SetupMetrics, workqueue_SetupMetrics]\<rparr>)
   \<and> SetupMetrics accept_all (Some informers0) (Some stores0) 11 12 state0
       = (Return None,
          store_stores stores0 12 (store_informers informers0 11 state0)
            \<lparr>calls := setup_calls\<rparr>)"
  using SetupMetrics_first_error [OF refl, where n = 1 and ext = reject_workqueue
      and sts = stores0 and cl = 12 and infs = informers0 and cfg = 11 and s = state0
      and e = "''rejected''"]
    SetupMetrics_first_error [OF refl, where n = 0 and ext = accept_all
      and sts = stores0 and cl = 12 and infs = informers0 and cfg = 11 and s = state0
      and e = "''rejected''"]
  by (simp add: setup_calls_def reject_workqueue_def accept_all_def state0_def)

text \<open>
  Claim C9. Called with non-nil \<^verbatim>\<open>informers\<close> and \<^verbatim>\<open>stores\<close>, \<open>SetupMetrics\<close> leaves
  every package-level reference set to the value supplied and the applier built from the
  supplied stores and client, whatever the registrations return, an error included. The
  last conjunct says that this happens before any registration: the calls into the other
  packages are only made in states where storing the references again changes nothing.
\<close>

theorem SetupMetrics_stores_references:
  "vmInformer (snd (SetupMetrics ext (Some infs) (Some sts) cfg cl s)) = Vm infs
   \<and> vmiInformer (snd (SetupMetrics ext (Some infs) (Some sts) cfg cl s)) = Vmi infs
   \<and> persistentVolumeClaimInformer (snd (SetupMetrics ext (Some infs) (Some sts) cfg cl s))
       = PersistentVolumeClaim infs
   \<and> vmiMigrationInformer (snd (SetupMetrics ext (Some infs) (Some sts) cfg cl s))
       = VmiMigration infs
   \<and> kvPodInformer (snd (SetupMetrics ext (Some infs) (Some sts) cfg cl s)) = KvPod infs
   \<and> clusterConfig (snd (SetupMetrics ext (Some infs) (Some sts) cfg cl s)) = cfg
   \<and> instancetypeStore (snd (SetupMetrics ext (Some infs) (Some sts) cfg cl s))
       = Instancetype sts
   \<and> clusterInstancetypeStore (snd (SetupMetrics ext (Some infs) (Some sts) cfg cl s))
       = ClusterInstancetype sts
   \<and> preferenceStore (snd (SetupMetrics ext (Some infs) (Some sts) cfg cl s)) = Preference sts
   \<and> clusterPreferenceStore (snd (SetupMetrics ext (Some infs) (Some sts) cfg cl s))
       = ClusterPreference sts
   \<and> controllerRevision (snd (SetupMetrics ext (Some infs) (Some sts) cfg cl s))
       = ControllerRevision sts
   \<and> vmApplier (snd (SetupMetrics ext (Some infs) (Some sts) cfg cl s))
       = Some (apply_NewVMApplier
           (find_NewSpecFinder (Instancetype sts) (ClusterInstancetype sts)
              (ControllerRevision sts) cl)
           (preferenceFind_NewSpecFinder (Preference sts) (ClusterPreference sts)
              (ControllerRevision sts) cl))
   \<and> SetupMetrics ext (Some infs) (Some sts) cfg cl s
       = SetupMetrics (\<lambda>t. ext (store_stores sts cl (store_informers infs cfg t)))
           (Some infs) (Some sts) cfg cl s"
proof -
  define s1 where "s1 = store_stores sts cl (store_informers infs cfg s)"
  have S: "SetupMetrics ext' (Some infs) (Some sts) cfg cl s = register ext' s1"
    for ext' :: "('a, 'b, 'c, 'd) state \<Rightarrow> call \<Rightarrow> 'e option"
    by (simp add: SetupMetrics_def s1_def)
  obtain cs where "snd (register ext s1) = s1\<lparr>calls := cs\<rparr>"
    using register_state by blast
  then have fields:
    "snd (SetupMetrics ext (Some infs) (Some sts) cfg cl s) = s1\<lparr>calls := cs\<rparr>"
    by (simp add: S)
  have "register ext s1
      = register (\<lambda>t. ext (store_stores sts cl (store_informers infs cfg t))) s1"
    by (rule register_cong) (simp add: s1_def stored_again)
  then have eq: "SetupMetrics ext (Some infs) (Some sts) cfg cl s
       = SetupMetrics (\<lambda>t. ext (store_stores sts cl (store_informers infs cfg t)))
           (Some infs) (Some sts) cfg cl s"
    by (simp only: S)
  show ?thesis
  proof (intro conjI)
    show "SetupMetrics ext (Some infs) (Some sts) cfg cl s
       = SetupMetrics (\<lambda>t. ext (store_stores sts cl (store_informers infs cfg t)))
           (Some infs) (Some sts) cfg cl s"
      by (fact eq)
  qed (simp_all add: fields s1_def store_stores_def store_informers_def)
qed

text \<open>
  Claim C10. \<open>UpdateVMIMigrationInformer\<close> sets \<open>vmiMigrationInformer\<close> to its argument
  and leaves the other four informers, the five stores, the cluster configuration, the
  applier and the list of calls as they were.
\<close>

theorem UpdateVMIMigrationInformer_frame:
  "vmiMigrationInformer (UpdateVMIMigrationInformer informer s) = informer
   \<and> vmInformer (UpdateVMIMigrationInformer informer s) = vmInformer s
   \<and> vmiInformer (UpdateVMIMigrationInformer informer s) = vmiInformer s
   \<and> persistentVolumeClaimInformer (UpdateVMIMigrationInformer informer s)
       = persistentVolumeClaimInformer s
   \<and> kvPodInformer (UpdateVMIMigrationInformer informer s) = kvPodInformer s
   \<and> instancetypeStore (UpdateVMIMigrationInformer informer s) = instancetypeStore s
   \<and> clusterInstancetypeStore (UpdateVMIMigrationInformer informer s)
       = clusterInstancetypeStore s
   \<and> preferenceStore (UpdateVMIMigrationInformer informer s) = preferenceStore s
   \<and> clusterPreferenceStore (UpdateVMIMigrationInformer informer s) = clusterPreferenceStore s
   \<and> controllerRevision (UpdateVMIMigrationInformer informer s) = controllerRevision s
   \<and> clusterConfig (UpdateVMIMigrationInformer informer s) = clusterConfig s
   \<and> vmApplier (UpdateVMIMigrationInformer informer s) = vmApplier s
   \<and> calls (UpdateVMIMigrationInformer informer s) = calls s"
  by (simp add: UpdateVMIMigrationInformer_def)

end
